theory Spec2Isabelle
  imports Complex_Main
begin

section \<open>Data model\<close>

text \<open>
  The module works on pandas frames with a \<open>DatetimeIndex\<close> and a single \<open>price\<close>
  column. A frame is the list of its rows in positional order; a row is the index label,
  an instant counted in nanoseconds since the epoch (the integer behind a pandas
  \<open>Timestamp\<close>, taken unbounded), and the price, a real number. A frame that may hold
  \<open>NaN\<close> (the mean of an empty bucket) carries \<open>real option\<close>, \<open>None\<close> being \<open>NaN\<close>.
\<close>

type_synonym instant = int
type_synonym frame = "(instant \<times> real) list"
type_synonym nan_frame = "(instant \<times> real option) list"

definition minute :: int where
  "minute = 60000000000"

definition hour :: int where
  "hour = 60 * minute"

definition day :: int where
  "day = 24 * hour"

definition seconds :: "int \<Rightarrow> int" where
  "seconds n = n * 1000000000"

section \<open>The pandas operations the module calls\<close>

text \<open>
  \<open>df.resample(freq).mean()\<close> for a tick frequency that divides a day: the bins start at
  multiples of the frequency, run from the bin of the earliest label to the bin of the
  latest one, both included, and each bin holds the mean of the rows whose label falls in
  it (left edge inclusive), \<open>NaN\<close> when there is none. An empty frame comes back empty.
\<close>

definition floor_to :: "int \<Rightarrow> instant \<Rightarrow> instant" where
  "floor_to f t = (t div f) * f"

definition bin_edges :: "int \<Rightarrow> instant list \<Rightarrow> instant list" where
  "bin_edges f ts =
     (let lo = floor_to f (Min (set ts)); hi = floor_to f (Max (set ts))
      in map (\<lambda>k. lo + int k * f) [0 ..< nat ((hi - lo) div f) + 1])"

definition mean :: "real list \<Rightarrow> real option" where
  "mean vs = (if vs = [] then None else Some (sum_list vs / real (length vs)))"

definition bucket :: "int \<Rightarrow> frame \<Rightarrow> instant \<Rightarrow> real list" where
  "bucket f df b = map snd (filter (\<lambda>r. floor_to f (fst r) = b) df)"

definition resample_mean :: "int \<Rightarrow> frame \<Rightarrow> nan_frame" where
  "resample_mean f df =
     (if df = [] then [] else map (\<lambda>b. (b, mean (bucket f df b))) (bin_edges f (map fst df)))"

text \<open>\<open>dropna()\<close> removes the rows whose price is \<open>NaN\<close>.\<close>

fun dropna :: "nan_frame \<Rightarrow> frame" where
  "dropna [] = []"
| "dropna ((t, None) # rs) = dropna rs"
| "dropna ((t, Some v) # rs) = (t, v) # dropna rs"

text \<open>\<open>ffill()\<close> copies the last price seen into a \<open>NaN\<close> row; leading \<open>NaN\<close>s stay.\<close>

fun ffill_from :: "real option \<Rightarrow> nan_frame \<Rightarrow> nan_frame" where
  "ffill_from prev [] = []"
| "ffill_from prev ((t, None) # rs) = (t, prev) # ffill_from prev rs"
| "ffill_from prev ((t, Some v) # rs) = (t, Some v) # ffill_from (Some v) rs"

definition ffill :: "nan_frame \<Rightarrow> nan_frame" where
  "ffill rs = ffill_from None rs"

section \<open>Python values, exceptions and effects\<close>

text \<open>
  An exception is a value: a function that may raise returns \<open>error + 'a\<close>, with
  \<open>Inl\<close> the exception that reaches the caller. \<open>InsufficientData\<close> and
  \<open>NoConvergence\<close> stand for the two ways the model fit can fail.
\<close>

datatype error =
    KeyError string
  | TypeError
  | IndexError
  | ValueError
  | JSONDecodeError
  | RequestError
  | InsufficientData
  | NoConvergence

text \<open>What \<open>response.json()\<close> decodes to; a dict is the list of its items.\<close>

datatype json =
    JNull
  | JBool bool
  | JInt int
  | JFloat real
  | JStr string
  | JArr "json list"
  | JObj "(string \<times> json) list"

record response =
  text_of :: string
  decoded :: "error + json"

text \<open>\<open>data[key]\<close> for a string key: only a dict has string subscripts.\<close>

fun getitem :: "json \<Rightarrow> string \<Rightarrow> error + json" where
  "getitem (JObj items) key =
     (case map_of items key of None \<Rightarrow> Inl (KeyError key) | Some v \<Rightarrow> Inr v)"
| "getitem _ key = Inl TypeError"

fun starts_with :: "string \<Rightarrow> string \<Rightarrow> bool" where
  "starts_with s [] = True"
| "starts_with [] (c # p) = False"
| "starts_with (a # s) (c # p) = (a = c \<and> starts_with s p)"

fun str_contains :: "string \<Rightarrow> string \<Rightarrow> bool" where
  "str_contains [] p = (p = [])"
| "str_contains (a # s) p = (starts_with (a # s) p \<or> str_contains s p)"

text \<open>
  \<open>key in data\<close>: a key of a dict, an element of a list, a substring of a string; the
  other values are not iterable and raise.
\<close>

fun contains :: "json \<Rightarrow> string \<Rightarrow> error + bool" where
  "contains (JObj items) key = Inr (key \<in> set (map fst items))"
| "contains (JArr xs) key = Inr (JStr key \<in> set xs)"
| "contains (JStr s) key = Inr (str_contains s key)"
| "contains _ key = Inl TypeError"

text \<open>
  The effects a function leaves behind, in the order they happen: log records, files
  written, figures shown, time slept. \<open>LogAppended now price\<close> is the record
  \<open>"[{now}] Appended price: ${price}"\<close>.
\<close>

datatype effect =
    LogError string
  | LogInfo string
  | LogAppended instant real
  | ToCsv string frame
  | Plot string "frame list"
  | Sleep int

text \<open>\<open>str(days)\<close> for an int.\<close>

fun str_nat :: "nat \<Rightarrow> string" where
  "str_nat n =
     (if n < 10 then [''0123456789'' ! n]
      else str_nat (n div 10) @ [''0123456789'' ! (n mod 10)])"

definition str_int :: "int \<Rightarrow> string" where
  "str_int i = (if i < 0 then CHR ''-'' # str_nat (nat (- i)) else str_nat (nat i))"

text \<open>
  Building the frame from the decoded price list (\<open>pd.DataFrame(prices, columns=...)\<close>,
  \<open>pd.to_datetime(..., unit="ms", utc=True)\<close>, \<open>set_index\<close>) is pandas' work; the
  fetching functions take it as the parameter \<open>frame_of\<close>. \<open>frame_of_rows\<close> is that
  conversion on the shape the provider documents, a list of \<open>[milliseconds, price]\<close>
  pairs; it is used to run the functions on concrete responses.
\<close>

fun row_of :: "json \<Rightarrow> error + (instant \<times> real)" where
  "row_of (JArr [JInt ms, JInt p]) = Inr (ms * 1000000, of_int p)"
| "row_of (JArr [JInt ms, JFloat p]) = Inr (ms * 1000000, p)"
| "row_of _ = Inl ValueError"

fun rows_of :: "json list \<Rightarrow> error + frame" where
  "rows_of [] = Inr []"
| "rows_of (j # js) =
     (case row_of j of Inl e \<Rightarrow> Inl e
      | Inr r \<Rightarrow> (case rows_of js of Inl e \<Rightarrow> Inl e | Inr rs \<Rightarrow> Inr (r # rs)))"

fun frame_of_rows :: "json \<Rightarrow> error + frame" where
  "frame_of_rows (JArr js) = rows_of js"
| "frame_of_rows _ = Inl ValueError"

section \<open>The functions of the module\<close>

subsection \<open>fetch_historical_data\<close>

text \<open>
  \<open>reply\<close> is what \<open>requests.get\<close> gives: an exception or a response. Only a
  \<open>KeyError\<close> is caught; it is logged with the raw text and raised again.
\<close>

definition fetch_historical_data ::
  "(json \<Rightarrow> error + frame) \<Rightarrow> error + response \<Rightarrow> effect list \<times> (error + frame)" where
  "fetch_historical_data frame_of reply =
     (case reply of
        Inl e \<Rightarrow> ([], Inl e)
      | Inr resp \<Rightarrow>
          (case decoded resp of
             Inl e \<Rightarrow> ([], Inl e)
           | Inr data \<Rightarrow>
               (case getitem data ''prices'' of
                  Inl (KeyError k) \<Rightarrow>
                    ([LogError ''Unexpected API response format.'', LogError (text_of resp)],
                     Inl (KeyError k))
                | Inl e \<Rightarrow> ([], Inl e)
                | Inr prices \<Rightarrow>
                    (case frame_of prices of
                       Inl e \<Rightarrow> ([], Inl e)
                     | Inr df \<Rightarrow> ([], Inr (dropna (resample_mean minute df)))))))"

subsection \<open>simulate_realtime\<close>

text \<open>
  \<open>df.loc[now] = price\<close>: a label already in the index has its rows overwritten; a new
  label is appended as the last row.
\<close>

definition set_loc :: "frame \<Rightarrow> instant \<Rightarrow> real \<Rightarrow> frame" where
  "set_loc df now price =
     (if now \<in> set (map fst df)
      then map (\<lambda>r. if fst r = now then (now, price) else r) df
      else df @ [(now, price)])"

text \<open>
  One iteration of the loop sees the outcome of the spot-price request (the price, or the
  exception of the request or of the two subscripts) and then reads the clock.
\<close>

record tick =
  fetched :: "error + real"
  clock :: instant

text \<open>
  The frame is mutated in place, so the caller sees the rows appended before an
  exception: the result is the frame as the run leaves it, the effects, and the
  exception raised, if any.
\<close>

fun poll :: "frame \<Rightarrow> tick list \<Rightarrow> frame \<times> effect list \<times> error option" where
  "poll df [] = (df, [], None)"
| "poll df (tk # tks) =
     (case fetched tk of
        Inl e \<Rightarrow> (df, [], Some e)
      | Inr price \<Rightarrow>
          (case poll (set_loc df (clock tk) price) tks of
             (df', effs, r) \<Rightarrow> (df', LogAppended (clock tk) price # Sleep 60 # effs, r)))"

definition simulate_realtime ::
  "(nat \<Rightarrow> tick) \<Rightarrow> frame \<Rightarrow> int \<Rightarrow> frame \<times> effect list \<times> error option" where
  "simulate_realtime env df minutes =
     (case poll df (map env [0 ..< nat minutes]) of
        (df', effs, r) \<Rightarrow>
          (df',
           LogInfo (''Simulating '' @ str_int minutes @ '' minutes of real-time price updates...'')
             # effs,
           r))"

subsection \<open>run_arima_analysis\<close>

text \<open>
  The maximum-likelihood fit is statsmodels' work and is the parameter \<open>fit\<close>: it gets
  the resampled, forward-filled price series and raises or returns the fitted results.
  The results are known here by their point predictions, \<open>results k\<close> being the
  prediction \<open>k\<close> steps past the end of the series; \<open>forecast results steps\<close> is
  \<open>results.forecast(steps=steps)\<close>, the first \<open>steps\<close> of them.
\<close>

type_synonym results = "nat \<Rightarrow> real"

definition forecast :: "results \<Rightarrow> nat \<Rightarrow> real list" where
  "forecast res steps = map (\<lambda>k. res (Suc k)) [0 ..< steps]"

definition run_arima_analysis ::
  "(nan_frame \<Rightarrow> error + results) \<Rightarrow> frame \<Rightarrow> error + (results \<times> real list)" where
  "run_arima_analysis fit df =
     (let df' = ffill (resample_mean minute df)
      in case fit df' of
           Inl e \<Rightarrow> Inl e
         | Inr res \<Rightarrow> Inr (res, forecast res 30))"

subsection \<open>plot_forecast and save_to_csv\<close>

text \<open>
  \<open>pd.date_range(start=s, periods=n, freq=f)\<close> for a tick frequency: \<open>n\<close> instants
  from \<open>s\<close>, \<open>f\<close> apart.
\<close>

definition date_range :: "instant \<Rightarrow> nat \<Rightarrow> int \<Rightarrow> instant list" where
  "date_range start periods freq = map (\<lambda>i. start + int i * freq) [0 ..< periods]"

text \<open>\<open>df.index[-1]\<close> raises on an empty frame.\<close>

definition last_index :: "frame \<Rightarrow> error + instant" where
  "last_index df = (if df = [] then Inl IndexError else Inr (fst (last df)))"

definition plot_forecast :: "frame \<Rightarrow> real list \<Rightarrow> effect list \<times> error option" where
  "plot_forecast df fc =
     (case last_index df of
        Inl e \<Rightarrow> ([], Some e)
      | Inr t \<Rightarrow>
          (let forecast_index = date_range (t + minute) 30 minute
           in if length fc \<noteq> length forecast_index then ([], Some ValueError)
              else ([Plot ''Bitcoin Price Forecast using ARIMA (UTC)''
                       [drop (length df - 120) df, zip forecast_index fc] ], None)))"

text \<open>
  The full data is written before the forecast index is built, so that file is there even
  when the rest raises. A forecast that is not 30 long does not fit the 30 labels.
\<close>

definition save_to_csv :: "frame \<Rightarrow> real list \<Rightarrow> effect list \<times> error option" where
  "save_to_csv df fc =
     (case last_index df of
        Inl e \<Rightarrow> ([ToCsv ''btc_full_data.csv'' df], Some e)
      | Inr t \<Rightarrow>
          (let forecast_index = date_range (t + minute) 30 minute
           in if length fc \<noteq> length forecast_index
              then ([ToCsv ''btc_full_data.csv'' df], Some ValueError)
              else ([ToCsv ''btc_full_data.csv'' df,
                     ToCsv ''btc_price_forecast.csv'' (zip forecast_index fc),
                     LogInfo ''Data saved to 'btc_full_data.csv' and 'btc_price_forecast.csv'.''],
                    None)))"

subsection \<open>fetch_and_process_data\<close>

text \<open>A response without the key is logged and answered with \<open>None\<close>: \<open>Inr None\<close>.\<close>

definition fetch_and_process_data ::
  "(json \<Rightarrow> error + frame) \<Rightarrow> error + response \<Rightarrow> int \<Rightarrow> string \<Rightarrow> string
     \<Rightarrow> effect list \<times> (error + frame option)" where
  "fetch_and_process_data frame_of reply days filename title =
     (case reply of
        Inl e \<Rightarrow> ([], Inl e)
      | Inr resp \<Rightarrow>
          (case decoded resp of
             Inl e \<Rightarrow> ([], Inl e)
           | Inr data \<Rightarrow>
               (case contains data ''prices'' of
                  Inl e \<Rightarrow> ([], Inl e)
                | Inr False \<Rightarrow>
                    ([LogError (''Unexpected response for '' @ str_int days @ '' days.''),
                      LogError (text_of resp)],
                     Inr None)
                | Inr True \<Rightarrow>
                    (case getitem data ''prices'' of
                       Inl e \<Rightarrow> ([], Inl e)
                     | Inr prices \<Rightarrow>
                         (case frame_of prices of
                            Inl e \<Rightarrow> ([], Inl e)
                          | Inr df0 \<Rightarrow>
                              (let df1 = (if days = 1 then resample_mean minute df0
                                          else if days = 30 then resample_mean hour df0
                                          else resample_mean day df0);
                                   df = dropna df1
                               in ([ToCsv filename df,
                                    LogInfo (''Saved data for '' @ title @ '' to '' @ filename),
                                    Plot (''Bitcoin Price - '' @ title) [df] ],
                                   Inr (Some df))))))))"

section \<open>Notions the properties are stated with\<close>

text \<open>
  A frame is regular at frequency \<open>f\<close> when its first label is a multiple of \<open>f\<close> and
  every row is exactly \<open>f\<close> after the previous one: one row per consecutive bucket.
\<close>

fun regular_from :: "int \<Rightarrow> instant \<Rightarrow> frame \<Rightarrow> bool" where
  "regular_from f t [] = True"
| "regular_from f t (r # rs) = (fst r = t \<and> regular_from f (t + f) rs)"

definition regular :: "int \<Rightarrow> frame \<Rightarrow> bool" where
  "regular f df =
     (case df of [] \<Rightarrow> True | r # rs \<Rightarrow> fst r mod f = 0 \<and> regular_from f (fst r) df)"

text \<open>A frame without \<open>NaN\<close> seen as a frame that may hold some.\<close>

definition lift :: "frame \<Rightarrow> nan_frame" where
  "lift df = map (\<lambda>r. (fst r, Some (snd r))) df"

text \<open>
  The rows a run of the polling loop has to offer: the clock reading and the price of each
  tick up to the first one whose request fails. Their number is the number of successful
  ticks of the run.
\<close>

fun successes :: "tick list \<Rightarrow> frame" where
  "successes [] = []"
| "successes (tk # tks) =
     (case fetched tk of Inl e \<Rightarrow> [] | Inr price \<Rightarrow> (clock tk, price) # successes tks)"

text \<open>
  A polling environment in which every request answers \<open>50000\<close> and every clock
  reading is the same instant, one minute after the epoch. It serves to run
  \<open>simulate_realtime\<close> on a frame that already holds that label.
\<close>

definition frozen_clock :: "nat \<Rightarrow> tick" where
  "frozen_clock i = \<lparr>fetched = Inr 50000, clock = minute\<rparr>"

text \<open>
  Modelled from the spec: the fit is statsmodels' and not part of the module. This
  stand-in follows the precondition the specification gives for the fit, fewer than
  \<open>p + d + q + 1 = 6\<close> points being \<open>InsufficientData\<close>, and predicts the last price
  of the series at every step. It serves to run \<open>run_arima_analysis\<close> on concrete frames.
\<close>

definition last_value_fit :: "nan_frame \<Rightarrow> error + results" where
  "last_value_fit s =
     (if length s < 6 then Inl InsufficientData
      else Inr (\<lambda>k. case snd (last s) of None \<Rightarrow> 0 | Some v \<Rightarrow> v))"

section \<open>Facts about buckets\<close>

lemma floor_to_unique:
  assumes "0 < f" "b mod f = 0" "b \<le> t" "t < b + f"
  shows "floor_to f t = b"
proof -
  obtain q where q: "b = f * q" using assms(2) by auto
  have "t = f * q + (t - b)" using q by simp
  moreover have "0 \<le> t - b" "t - b < f" using assms by auto
  ultimately have "t div f = q" by (metis int_div_pos_eq)
  then show ?thesis by (simp add: floor_to_def q)
qed

lemma floor_to_mod: "floor_to f t mod f = 0"
  by (simp add: floor_to_def)

lemma floor_to_bounds: "0 < f \<Longrightarrow> floor_to f t \<le> t \<and> t < floor_to f t + f"
proof -
  assume f: "0 < f"
  have "t = floor_to f t + t mod f" by (simp add: floor_to_def)
  moreover have "0 \<le> t mod f" "t mod f < f" using f by simp_all
  ultimately show ?thesis by linarith
qed

lemma regular_from_index:
  "regular_from f t df \<Longrightarrow> map fst df = map (\<lambda>k. t + int k * f) [0 ..< length df]"
proof (induction df arbitrary: t)
  case Nil
  then show ?case by simp
next
  case (Cons r rs)
  then have hd: "fst r = t" and tl: "map fst rs = map (\<lambda>k. (t + f) + int k * f) [0 ..< length rs]"
    by simp_all
  have "map (\<lambda>k. t + int k * f) [0 ..< length (r # rs)]
        = t # map (\<lambda>k. t + int (Suc k) * f) [0 ..< length rs]"
    by (simp add: upt_conv_Cons map_Suc_upt [symmetric] del: upt_Suc)
  also have "map (\<lambda>k. t + int (Suc k) * f) [0 ..< length rs] = map fst rs"
    unfolding tl by (simp add: algebra_simps)
  finally show ?case using hd by simp
qed

lemma filter_label_distinct:
  "distinct (map fst df) \<Longrightarrow> r \<in> set df \<Longrightarrow> filter (\<lambda>r'. fst r' = fst r) df = [r]"
proof (induction df)
  case Nil
  then show ?case by simp
next
  case (Cons a df)
  show ?case
  proof (cases "a = r")
    case True
    have "fst r \<notin> fst ` set df" using Cons.prems(1) True by simp
    then have "\<forall>r' \<in> set df. fst r' \<noteq> fst r" by (metis imageI)
    then have "filter (\<lambda>r'. fst r' = fst r) df = []" by (simp add: filter_empty_conv)
    then show ?thesis using True by simp
  next
    case False
    then have in_df: "r \<in> set df" using Cons.prems(2) by simp
    then have "fst a \<noteq> fst r" using Cons.prems(1) by auto
    then show ?thesis using Cons.IH in_df Cons.prems(1) by simp
  qed
qed

lemma floor_to_multiple: "t mod f = 0 \<Longrightarrow> floor_to f t = t"
  by (auto simp: floor_to_def)

lemma arith_index_props:
  assumes f: "0 < f" and t: "t mod f = 0" and n: "0 < n"
    and ts: "ts = map (\<lambda>k. t + int k * f) [0 ..< n]"
  shows "Min (set ts) = t" and "Max (set ts) = t + int (n - 1) * f"
    and "\<forall>x \<in> set ts. x mod f = 0" and "distinct ts"
proof -
  have fin: "finite (set ts)" by simp
  have mem0: "t \<in> set ts" using n unfolding ts by (auto intro!: image_eqI [where x = 0])
  have memn: "t + int (n - 1) * f \<in> set ts"
    using n unfolding ts by (auto intro!: image_eqI [where x = "n - 1"])
  have lo: "\<And>x. x \<in> set ts \<Longrightarrow> t \<le> x" using f unfolding ts by auto
  have hi: "\<And>x. x \<in> set ts \<Longrightarrow> x \<le> t + int (n - 1) * f"
  proof -
    fix x assume "x \<in> set ts"
    then obtain k where k: "k < n" "x = t + int k * f" unfolding ts by auto
    then have "int k \<le> int (n - 1)" by simp
    then have "int k * f \<le> int (n - 1) * f" using f by (simp add: mult_right_mono)
    then show "x \<le> t + int (n - 1) * f" using k by simp
  qed
  show "Min (set ts) = t" by (rule Min_eqI [OF fin lo mem0])
  show "Max (set ts) = t + int (n - 1) * f" by (rule Max_eqI [OF fin hi memn])
  show "\<forall>x \<in> set ts. x mod f = 0" using t unfolding ts by auto
  show "distinct ts" using f unfolding ts by (auto simp: distinct_map inj_on_def)
qed

lemma bin_edges_regular:
  assumes f: "0 < f" and t: "t mod f = 0" and n: "0 < n"
    and ts: "ts = map (\<lambda>k. t + int k * f) [0 ..< n]"
  shows "bin_edges f ts = ts"
proof -
  have mn: "Min (set ts) = t" and mx: "Max (set ts) = t + int (n - 1) * f"
    using arith_index_props [OF f t n ts] by simp_all
  have tm: "(t + int (n - 1) * f) mod f = 0" using t by simp
  have d: "(t + int (n - 1) * f - t) div f = int (n - 1)" using f by simp
  have e0: "nat (int (n - 1)) + 1 = n" using n by simp
  have e: "[0 ..< nat (int (n - 1)) + 1] = [0 ..< n]" by (simp only: e0)
  show ?thesis
    unfolding bin_edges_def mn mx floor_to_multiple [OF t] floor_to_multiple [OF tm] Let_def d e
    by (simp only: ts)
qed

section \<open>Resampling\<close>

text \<open>
  Claim C2, as amended. Take the three observations \<open>(t0, 100)\<close>, \<open>(t0 + 10 s, 102)\<close>
  and \<open>(t0 + 70 s, 98)\<close>, with \<open>t0\<close> less than 50 seconds past the start of its minute.
  Resampling them at one minute with the mean and dropping the empty buckets, as
  \<open>resample("1min").mean().dropna()\<close> does, gives exactly two observations: the mean
  \<open>101\<close> at \<open>t0\<close> floored to the minute, and \<open>98\<close> sixty seconds later.
\<close>

theorem scenario_within_fifty_seconds:
  assumes "t0 mod minute < seconds 50"
  shows "dropna (resample_mean minute [(t0, 100), (t0 + seconds 10, 102), (t0 + seconds 70, 98)])
         = [(floor_to minute t0, 101), (floor_to minute t0 + seconds 60, 98)]"
proof -
  define b where "b = floor_to minute t0"
  have m: "0 < minute" by (simp add: minute_def)
  have off: "t0 = b + t0 mod minute" by (simp add: b_def floor_to_def)
  have bm: "b mod minute = 0" by (simp add: b_def floor_to_mod)
  have r0: "0 \<le> t0 mod minute" using m by simp
  have bm1: "(b + minute) mod minute = 0" using bm by simp
  have f0: "floor_to minute t0 = b" by (simp add: b_def)
  have f1: "floor_to minute (t0 + seconds 10) = b"
    using assms r0 off by (intro floor_to_unique [OF m bm]) (simp_all add: seconds_def minute_def)
  have f2: "floor_to minute (t0 + seconds 70) = b + minute"
    using assms r0 off by (intro floor_to_unique [OF m bm1]) (simp_all add: seconds_def minute_def)
  have mn: "Min (set (map fst [(t0, 100::real), (t0 + seconds 10, 102), (t0 + seconds 70, 98)])) = t0"
    by (simp add: seconds_def)
  have mx: "Max (set (map fst [(t0, 100::real), (t0 + seconds 10, 102), (t0 + seconds 70, 98)])) = t0 + seconds 70"
    by (simp add: seconds_def)
  have edges: "bin_edges minute (map fst [(t0, 100::real), (t0 + seconds 10, 102), (t0 + seconds 70, 98)])
               = [b, b + minute]"
    unfolding bin_edges_def mn mx f0 f2 using m by (simp add: Let_def upt_conv_Cons)
  have ne: "b + minute \<noteq> b" "b \<noteq> b + minute" using m by simp_all
  have mne: "minute \<noteq> 0" using m by simp
  have b0: "bucket minute [(t0, 100), (t0 + seconds 10, 102), (t0 + seconds 70, 98)] b = [100, 102]"
    by (simp add: bucket_def f0 f1 f2 ne mne)
  have b1: "bucket minute [(t0, 100), (t0 + seconds 10, 102), (t0 + seconds 70, 98)] (b + minute) = [98]"
    by (simp add: bucket_def f0 f1 f2 ne mne)
  have "dropna (resample_mean minute [(t0, 100), (t0 + seconds 10, 102), (t0 + seconds 70, 98)])
        = [(b, 101), (b + minute, 98)]"
    unfolding resample_mean_def edges by (simp add: b0 b1 mean_def)
  then show ?thesis by (simp add: b_def seconds_def minute_def)
qed

theorem scenario_within_fifty_seconds_witness:
  "seconds 5 mod minute < seconds 50 \<and>
   dropna (resample_mean minute [(seconds 5, 100), (seconds 5 + seconds 10, 102), (seconds 5 + seconds 70, 98)])
     = [(floor_to minute (seconds 5), 101), (floor_to minute (seconds 5) + seconds 60, 98)]"
  using scenario_within_fifty_seconds [of "seconds 5"] by (simp add: seconds_def minute_def)

text \<open>
  The scenario of claim C2 does not hold for every \<open>t0\<close>: 55 seconds into a minute, the
  second observation falls into the next bucket and the third into the one after, so the
  result has three observations and no mean of \<open>101\<close>.
\<close>

theorem scenario_late_in_minute_counterexample:
  "dropna (resample_mean minute
      [(seconds 55, 100), (seconds 55 + seconds 10, 102), (seconds 55 + seconds 70, 98)])
   \<noteq> [(floor_to minute (seconds 55), 101), (floor_to minute (seconds 55) + seconds 60, 98)]"
  by (simp add: resample_mean_def bin_edges_def floor_to_def minute_def seconds_def mean_def
        bucket_def upt_conv_Cons)

text \<open>
  Claim C7. A frame that is regular at a frequency \<open>f\<close> (one row per consecutive
  bucket, every label on a bucket boundary) comes back from resampling at \<open>f\<close> with the
  mean with the same labels and the same prices. Dropping \<open>NaN\<close> rows afterwards, as
  \<open>fetch_historical_data\<close> does, or forward-filling, as \<open>run_arima_analysis\<close> does,
  changes nothing either.
\<close>

theorem resample_regular_unchanged:
  assumes f: "0 < f" and reg: "regular f df"
  shows "resample_mean f df = lift df \<and> dropna (resample_mean f df) = df
         \<and> ffill (resample_mean f df) = lift df"
proof -
  have main: "resample_mean f df = lift df"
  proof (cases df)
    case Nil
    then show ?thesis by (simp add: resample_mean_def lift_def)
  next
    case (Cons r rs)
    then have t: "fst r mod f = 0" and rf: "regular_from f (fst r) df"
      using reg by (simp_all add: regular_def)
    have n: "0 < length df" and ne: "df \<noteq> []" using Cons by simp_all
    have ts: "map fst df = map (\<lambda>k. fst r + int k * f) [0 ..< length df]"
      by (rule regular_from_index [OF rf])
    have edges: "bin_edges f (map fst df) = map fst df"
      by (rule bin_edges_regular [OF f t n ts])
    have mult: "\<forall>x \<in> set (map fst df). x mod f = 0" and dist: "distinct (map fst df)"
      using arith_index_props [OF f t n ts] by simp_all
    have same: "\<And>r'. r' \<in> set df \<Longrightarrow> floor_to f (fst r') = fst r'"
      using mult by (simp add: floor_to_multiple)
    have bucket_one: "bucket f df (fst x) = [snd x]" if x: "x \<in> set df" for x
    proof -
      have "filter (\<lambda>r'. floor_to f (fst r') = fst x) df = filter (\<lambda>r'. fst r' = fst x) df"
        by (rule filter_cong) (simp_all add: same)
      then show ?thesis by (simp add: bucket_def filter_label_distinct [OF dist x])
    qed
    have "resample_mean f df = map (\<lambda>x. (fst x, mean (bucket f df (fst x)))) df"
      using ne by (simp add: resample_mean_def edges comp_def)
    also have "\<dots> = map (\<lambda>x. (fst x, Some (snd x))) df"
      by (rule map_cong) (simp_all add: bucket_one mean_def)
    finally show ?thesis by (simp add: lift_def)
  qed
  have dl: "dropna (lift xs) = xs" for xs
    by (induction xs) (auto simp: lift_def)
  have fl: "ffill_from p (lift xs) = lift xs" for xs p
    by (induction xs arbitrary: p) (auto simp: lift_def)
  show ?thesis by (simp add: main dl fl ffill_def)
qed

theorem resample_regular_unchanged_witness:
  "(0::int) < minute \<and> regular minute [(0, 5), (minute, 7), (2 * minute, 6)]
   \<and> resample_mean minute [(0, 5), (minute, 7), (2 * minute, 6)] = lift [(0, 5), (minute, 7), (2 * minute, 6)]
   \<and> dropna (resample_mean minute [(0, 5), (minute, 7), (2 * minute, 6)]) = [(0, 5), (minute, 7), (2 * minute, 6)]"
proof -
  have f: "(0::int) < minute" by (simp add: minute_def)
  have r: "regular minute [(0, 5), (minute, 7), (2 * minute, 6)]"
    by (simp add: regular_def minute_def)
  show ?thesis using f r resample_regular_unchanged [OF f r] by (simp add: lift_def)
qed

section \<open>The polling loop\<close>

lemma set_loc_fresh: "now \<notin> set (map fst df) \<Longrightarrow> set_loc df now p = df @ [(now, p)]"
  by (simp add: set_loc_def)

lemma set_loc_length: "length df \<le> length (set_loc df now p)"
  by (simp add: set_loc_def)

lemma set_loc_take:
  assumes "n \<le> length df" and "now \<notin> set (map fst (take n df))"
  shows "take n (set_loc df now p) = take n df"
proof (cases "now \<in> set (map fst df)")
  case True
  have "map (\<lambda>r. if fst r = now then (now, p) else r) (take n df) = take n df"
    using assms(2) by (intro map_idI) auto
  then show ?thesis using True by (simp add: set_loc_def take_map)
next
  case False
  then show ?thesis using assms(1) by (simp add: set_loc_def)
qed

lemma set_loc_take_index:
  assumes "n \<le> length df"
  shows "map fst (take n (set_loc df now p)) = map fst (take n df)"
proof (cases "now \<in> set (map fst df)")
  case True
  have "map fst (map (\<lambda>r. if fst r = now then (now, p) else r) df) = map fst df"
    by (induction df) auto
  then have "map fst (set_loc df now p) = map fst df" using True by (simp add: set_loc_def)
  then show ?thesis by (metis take_map)
next
  case False
  then show ?thesis using assms by (simp add: set_loc_def)
qed

lemma poll_step:
  "fetched tk = Inr price \<Longrightarrow>
   fst (poll df (tk # tks)) = fst (poll (set_loc df (clock tk) price) tks)"
  by (cases "poll (set_loc df (clock tk) price) tks") simp

lemma poll_appends:
  "distinct (map fst (successes tks)) \<Longrightarrow>
   set (map fst (successes tks)) \<inter> set (map fst df) = {} \<Longrightarrow>
   fst (poll df tks) = df @ successes tks"
proof (induction tks arbitrary: df)
  case Nil
  then show ?case by simp
next
  case (Cons tk tks)
  show ?case
  proof (cases "fetched tk")
    case (Inl e)
    then show ?thesis by simp
  next
    case (Inr price)
    from Cons.prems Inr have fresh: "clock tk \<notin> set (map fst df)"
      and d: "distinct (map fst (successes tks))"
      and nin: "clock tk \<notin> set (map fst (successes tks))"
      and disj: "set (map fst (successes tks)) \<inter> set (map fst df) = {}"
      by auto
    have sl: "set_loc df (clock tk) price = df @ [(clock tk, price)]"
      by (rule set_loc_fresh [OF fresh])
    have "set (map fst (successes tks)) \<inter> set (map fst (df @ [(clock tk, price)])) = {}"
      using nin disj by auto
    then have "fst (poll (df @ [(clock tk, price)]) tks) = (df @ [(clock tk, price)]) @ successes tks"
      by (rule Cons.IH [OF d])
    then show ?thesis using Inr sl by (simp add: poll_step del: poll.simps)
  qed
qed

lemma poll_take:
  "n \<le> length df \<Longrightarrow> set (map fst (successes tks)) \<inter> set (map fst (take n df)) = {} \<Longrightarrow>
   take n (fst (poll df tks)) = take n df"
proof (induction tks arbitrary: df)
  case Nil
  then show ?case by simp
next
  case (Cons tk tks)
  show ?case
  proof (cases "fetched tk")
    case (Inl e)
    then show ?thesis by simp
  next
    case (Inr price)
    from Cons.prems Inr have fresh: "clock tk \<notin> set (map fst (take n df))"
      and disj: "set (map fst (successes tks)) \<inter> set (map fst (take n df)) = {}"
      by auto
    have tk_eq: "take n (set_loc df (clock tk) price) = take n df"
      by (rule set_loc_take [OF Cons.prems(1) fresh])
    have len: "n \<le> length (set_loc df (clock tk) price)"
      using Cons.prems(1) set_loc_length [of df "clock tk" price] by linarith
    have "take n (fst (poll (set_loc df (clock tk) price) tks)) = take n (set_loc df (clock tk) price)"
      by (rule Cons.IH [OF len]) (simp only: tk_eq disj)
    then show ?thesis using Inr tk_eq by (simp add: poll_step del: poll.simps)
  qed
qed

lemma poll_take_index:
  "n \<le> length df \<Longrightarrow> map fst (take n (fst (poll df tks))) = map fst (take n df)"
proof (induction tks arbitrary: df)
  case Nil
  then show ?case by simp
next
  case (Cons tk tks)
  show ?case
  proof (cases "fetched tk")
    case (Inl e)
    then show ?thesis by simp
  next
    case (Inr price)
    have len: "n \<le> length (set_loc df (clock tk) price)"
      using Cons.prems set_loc_length [of df "clock tk" price] by linarith
    have "map fst (take n (fst (poll (set_loc df (clock tk) price) tks)))
          = map fst (take n (set_loc df (clock tk) price))"
      by (rule Cons.IH [OF len])
    then show ?thesis using Inr set_loc_take_index [OF Cons.prems] by (simp add: poll_step del: poll.simps)
  qed
qed

lemma fst_simulate_realtime:
  "fst (simulate_realtime env df minutes) = fst (poll df (map env [0 ..< nat minutes]))"
  by (simp add: simulate_realtime_def split: prod.splits)

text \<open>
  Claim C3, as amended. Take a run of \<open>simulate_realtime\<close> whose successful ticks read
  strictly increasing clock values, all of them later than every label of the initial
  frame. With \<open>N\<close> successful ticks the frame the run leaves has \<open>len(initial) + N\<close>
  rows, the initial rows followed by one row per tick, and the label of each appended row
  is strictly greater than every label the frame held at the moment of the append, its
  last one included.
\<close>

theorem simulate_appends_after_initial:
  assumes new: "new = successes (map env [0 ..< nat minutes])"
    and out: "out = fst (simulate_realtime env df minutes)"
    and clock_increasing: "sorted_wrt (<) (map fst new)"
    and initial_earlier: "\<forall>t \<in> set (map fst df). \<forall>c \<in> set (map fst new). t < c"
  shows "out = df @ new \<and> length out = length df + length new
         \<and> (\<forall>k < length new. \<forall>j < length df + k. fst (out ! j) < fst (out ! (length df + k)))"
proof -
  have d: "distinct (map fst new)"
    using clock_increasing by (simp add: strict_sorted_iff)
  have disj: "set (map fst new) \<inter> set (map fst df) = {}"
    using initial_earlier by fastforce
  have eq: "out = df @ new"
    unfolding out fst_simulate_realtime using d disj unfolding new by (rule poll_appends)
  have later: "fst (out ! j) < fst (out ! (length df + k))"
    if k: "k < length new" and j: "j < length df + k" for k j
  proof (cases "j < length df")
    case True
    then have "fst (out ! j) \<in> set (map fst df)" by (simp add: eq nth_append)
    moreover have "fst (out ! (length df + k)) \<in> set (map fst new)" using k by (simp add: eq)
    ultimately show ?thesis using initial_earlier by blast
  next
    case False
    then obtain i where i: "j = length df + i" "i < k" using j by (metis add_diff_inverse_nat nat_add_left_cancel_less)
    have "map fst new ! i < map fst new ! k"
      using clock_increasing i(2) k by (simp add: sorted_wrt_iff_nth_less)
    then show ?thesis using i k by (simp add: eq)
  qed
  show ?thesis using eq later by simp
qed

text \<open>
  Claim C9, as amended. \<open>simulate_realtime\<close> never changes the labels of the rows the
  frame had at the start, nor their order or number; and when no successful tick reads a
  clock value that is already a label of the initial frame, the first \<open>len(initial)\<close>
  rows of the result are the initial rows, prices included.
\<close>

theorem simulate_keeps_initial_rows:
  assumes out: "out = fst (simulate_realtime env df minutes)"
  shows "map fst (take (length df) out) = map fst df
         \<and> (set (map fst (successes (map env [0 ..< nat minutes]))) \<inter> set (map fst df) = {}
              \<longrightarrow> take (length df) out = df)"
  unfolding out fst_simulate_realtime
  using poll_take_index [of "length df" df] poll_take [of "length df" df] by simp

text \<open>
  A run of three ticks, one minute apart, on a frame whose only row is older: the three
  rows are appended in order.
\<close>

theorem simulate_appends_after_initial_witness:
  "sorted_wrt (<) (map fst (successes (map (\<lambda>i. \<lparr>fetched = Inr 50000, clock = int (Suc i) * minute\<rparr>) [0 ..< nat 3])))
   \<and> fst (simulate_realtime (\<lambda>i. \<lparr>fetched = Inr 50000, clock = int (Suc i) * minute\<rparr>) [(0, 49000)] 3)
       = [(0, 49000), (minute, 50000), (2 * minute, 50000), (3 * minute, 50000)]
   \<and> length (fst (simulate_realtime (\<lambda>i. \<lparr>fetched = Inr 50000, clock = int (Suc i) * minute\<rparr>) [(0, 49000)] 3))
       = length [(0 :: int, 49000 :: real)] + 3"
proof -
  define env :: "nat \<Rightarrow> tick" where "env = (\<lambda>i. \<lparr>fetched = Inr 50000, clock = int (Suc i) * minute\<rparr>)"
  have new: "successes (map env [0 ..< nat 3]) = [(minute, 50000), (2 * minute, 50000), (3 * minute, 50000)]"
    by (simp add: env_def upt_conv_Cons)
  have inc: "sorted_wrt (<) (map fst (successes (map env [0 ..< nat 3])))"
    unfolding new by (simp add: minute_def)
  have early: "\<forall>t \<in> set (map fst [(0 :: int, 49000 :: real)]). \<forall>c \<in> set (map fst (successes (map env [0 ..< nat 3]))). t < c"
    unfolding new by (simp add: minute_def)
  show ?thesis
    using inc simulate_appends_after_initial [OF refl refl inc early]
    unfolding new env_def [symmetric] by simp
qed

text \<open>
  Claim C3 does not hold for every initial frame: when the clock reading of a successful
  tick is already a label of the frame, \<open>df.loc[now] = price\<close> overwrites that row and
  the frame does not grow.
\<close>

theorem simulate_clock_collision_counterexample:
  "successes (map frozen_clock [0 ..< nat 1]) = [(minute, 50000)]
   \<and> fst (simulate_realtime frozen_clock [(0, 48000), (minute, 49000)] 1)
       = [(0, 48000), (minute, 50000)]
   \<and> length (fst (simulate_realtime frozen_clock [(0, 48000), (minute, 49000)] 1))
       \<noteq> length [(0 :: int, 48000 :: real), (minute, 49000)] + 1"
  by (simp add: simulate_realtime_def set_loc_def minute_def frozen_clock_def)

text \<open>Two ticks later than both rows of the initial frame leave these rows as they were.\<close>

theorem simulate_keeps_initial_rows_witness:
  "map fst (take 2 (fst (simulate_realtime (\<lambda>i. \<lparr>fetched = Inr 50000, clock = int (i + 2) * minute\<rparr>) [(0, 48000), (minute, 49000)] 2)))
     = [0, minute]
   \<and> take 2 (fst (simulate_realtime (\<lambda>i. \<lparr>fetched = Inr 50000, clock = int (i + 2) * minute\<rparr>) [(0, 48000), (minute, 49000)] 2))
     = [(0, 48000), (minute, 49000)]"
proof -
  define env :: "nat \<Rightarrow> tick" where "env = (\<lambda>i. \<lparr>fetched = Inr 50000, clock = int (i + 2) * minute\<rparr>)"
  have new: "successes (map env [0 ..< nat 2]) = [(2 * minute, 50000), (3 * minute, 50000)]"
    by (simp add: env_def upt_conv_Cons)
  have disj: "set (map fst (successes (map env [0 ..< nat 2]))) \<inter> set (map fst [(0 :: int, 48000 :: real), (minute, 49000)]) = {}"
    unfolding new by (simp add: minute_def)
  show ?thesis
    using disj simulate_keeps_initial_rows [where env = env and df = "[(0, 48000), (minute, 49000)]" and minutes = 2, OF refl]
    unfolding env_def [symmetric] by (simp add: numeral_2_eq_2)
qed

text \<open>
  Claim C9 does not hold for every initial frame: a tick whose clock reading equals the
  label of an initial row replaces the price of that row.
\<close>

theorem simulate_overwrites_counterexample:
  "fst (simulate_realtime frozen_clock [(minute, 49000)] 1) = [(minute, 50000)]
   \<and> take (length [(minute, 49000 :: real)])
         (fst (simulate_realtime frozen_clock [(minute, 49000)] 1))
       \<noteq> [(minute, 49000)]"
  by (simp add: simulate_realtime_def set_loc_def minute_def frozen_clock_def)

section \<open>Fitting and forecasting\<close>

lemma length_ffill_from: "length (ffill_from p rs) = length rs"
  by (induction p rs rule: ffill_from.induct) simp_all

lemma length_resample_mean:
  "length (resample_mean f df) =
     (if df = [] then 0
      else nat ((floor_to f (Max (set (map fst df))) - floor_to f (Min (set (map fst df)))) div f) + 1)"
  by (simp add: resample_mean_def bin_edges_def Let_def)

lemma date_range_nth: "i < n \<Longrightarrow> date_range s n f ! i = s + int i * f"
  by (simp add: date_range_def)

lemma length_date_range: "length (date_range s n f) = n"
  by (simp add: date_range_def)

text \<open>
  Claim C1. Let \<open>run_arima_analysis\<close> return a forecast for a non-empty frame whose last
  label is \<open>origin\<close>, whatever the fit. The forecast has exactly 30 values; \<open>save_to_csv\<close>
  and \<open>plot_forecast\<close> accept it and pair it with 30 labels, the first being
  \<open>origin\<close> plus one minute and the \<open>i\<close>-th \<open>origin\<close> plus \<open>i + 1\<close> minutes. So
  consecutive forecast labels are exactly one minute apart, all of them are later than
  \<open>origin\<close>, and none is a label of the input when the input's last label is its latest.
\<close>

theorem forecast_index_continuity:
  assumes nonempty: "df \<noteq> []"
    and fitted: "run_arima_analysis fit df = Inr (res, fc)"
    and origin: "origin = fst (last df)"
    and rows: "rows = zip (date_range (origin + minute) 30 minute) fc"
  shows "length fc = 30
         \<and> save_to_csv df fc =
             ([ToCsv ''btc_full_data.csv'' df, ToCsv ''btc_price_forecast.csv'' rows,
               LogInfo ''Data saved to 'btc_full_data.csv' and 'btc_price_forecast.csv'.''], None)
         \<and> plot_forecast df fc =
             ([Plot ''Bitcoin Price Forecast using ARIMA (UTC)'' [drop (length df - 120) df, rows] ],
              None)
         \<and> length rows = 30 \<and> map snd rows = fc
         \<and> fst (rows ! 0) = origin + minute
         \<and> (\<forall>i < 30. fst (rows ! i) = origin + minute * (int i + 1))
         \<and> (\<forall>i < 29. fst (rows ! Suc i) - fst (rows ! i) = minute)
         \<and> (\<forall>i < 30. origin < fst (rows ! i))
         \<and> ((\<forall>t \<in> set (map fst df). t \<le> origin) \<longrightarrow> (\<forall>i < 30. fst (rows ! i) \<notin> set (map fst df)))"
proof -
  have fc: "fc = forecast res 30"
    using fitted by (auto simp: run_arima_analysis_def Let_def split: sum.splits)
  have len: "length fc = 30" by (simp add: fc forecast_def)
  have lr: "length rows = 30" by (simp add: rows len length_date_range)
  have li: "last_index df = Inr origin" using nonempty by (simp add: last_index_def origin)
  have save: "save_to_csv df fc =
             ([ToCsv ''btc_full_data.csv'' df, ToCsv ''btc_price_forecast.csv'' rows,
               LogInfo ''Data saved to 'btc_full_data.csv' and 'btc_price_forecast.csv'.''], None)"
    by (simp add: save_to_csv_def li Let_def len length_date_range rows)
  have plot: "plot_forecast df fc =
             ([Plot ''Bitcoin Price Forecast using ARIMA (UTC)'' [drop (length df - 120) df, rows] ],
              None)"
    by (simp add: plot_forecast_def li Let_def len length_date_range rows)
  have vals: "map snd rows = fc" by (simp add: rows len length_date_range)
  have nth: "fst (rows ! i) = origin + minute * (int i + 1)" if "i < 30" for i
    using that by (simp add: rows len length_date_range date_range_nth algebra_simps)
  have m: "0 < minute" by (simp add: minute_def)
  have later: "origin < fst (rows ! i)" if "i < 30" for i
  proof -
    have "0 < minute * (int i + 1)" using m by simp
    then show ?thesis using nth [OF that] by simp
  qed
  have step: "fst (rows ! Suc i) - fst (rows ! i) = minute" if "i < 29" for i
  proof -
    have "fst (rows ! Suc i) = origin + minute * (int (Suc i) + 1)" using that by (intro nth) simp
    moreover have "fst (rows ! i) = origin + minute * (int i + 1)" using that by (intro nth) simp
    ultimately show ?thesis by (simp add: algebra_simps)
  qed
  have first: "fst (rows ! 0) = origin + minute" using nth [of 0] by simp
  have apart: "(\<forall>t \<in> set (map fst df). t \<le> origin) \<longrightarrow> (\<forall>i < 30. fst (rows ! i) \<notin> set (map fst df))"
    using later by (metis not_le)
  show ?thesis using len save plot lr vals first nth step later apart by blast
qed

text \<open>A frame that spans six one-minute buckets, fitted by the stand-in.\<close>

theorem forecast_index_continuity_witness:
  "run_arima_analysis last_value_fit [(seconds 30, 100), (5 * minute + seconds 20, 102)]
     = Inr (\<lambda>k. 102, replicate 30 102)
   \<and> length (replicate 30 (102 :: real)) = 30
   \<and> fst (zip (date_range (fst (last [(seconds 30, 100 :: real), (5 * minute + seconds 20, 102)])
                               + minute) 30 minute)
              (replicate 30 (102 :: real)) ! 0)
     = fst (last [(seconds 30, 100 :: real), (5 * minute + seconds 20, 102)]) + minute"
proof -
  have ne: "[(seconds 30, 100 :: real), (5 * minute + seconds 20, 102)] \<noteq> []" by simp
  have rs: "ffill (resample_mean minute [(seconds 30, 100), (5 * minute + seconds 20, 102)])
     = [(0, Some 100), (minute, Some 100), (2 * minute, Some 100), (3 * minute, Some 100),
        (4 * minute, Some 100), (5 * minute, Some 102)]"
    by (simp add: resample_mean_def bin_edges_def floor_to_def minute_def seconds_def mean_def
          bucket_def ffill_def upt_conv_Cons Let_def)
  have fcst: "forecast (\<lambda>k. 102) 30 = replicate 30 102"
    by (simp add: forecast_def map_replicate_const)
  have run: "run_arima_analysis last_value_fit [(seconds 30, 100), (5 * minute + seconds 20, 102)]
     = Inr (\<lambda>k. 102, replicate 30 102)"
    by (simp add: run_arima_analysis_def rs last_value_fit_def fcst)
  show ?thesis
    using run forecast_index_continuity [OF ne run refl refl] by blast
qed

text \<open>
  Claim C6, as amended. \<open>run_arima_analysis\<close> checks no length and produces no
  \<open>InsufficientData\<close> of its own. For every input, whatever its number of points, it
  hands the fit the frame resampled at one minute and forward-filled, which has one point
  per one-minute bucket the input spans, and returns what the fit returns on it: the
  fit's exception when the fit raises, and otherwise the fitted results with a forecast
  of 30 values.
\<close>

theorem fit_outcome_propagated:
  assumes s: "s = ffill (resample_mean minute df)"
  shows "(\<forall>e. (run_arima_analysis fit df = Inl e) = (fit s = Inl e))
         \<and> (\<forall>res. fit s = Inr res \<longrightarrow>
               run_arima_analysis fit df = Inr (res, forecast res 30)
               \<and> length (forecast res 30) = 30)
         \<and> ((\<forall>x. fit x \<noteq> Inl InsufficientData)
               \<longrightarrow> run_arima_analysis fit df \<noteq> Inl InsufficientData)
         \<and> length s =
             (if df = [] then 0
              else nat ((floor_to minute (Max (set (map fst df)))
                         - floor_to minute (Min (set (map fst df)))) div minute) + 1)"
proof -
  have err: "(run_arima_analysis fit df = Inl e) = (fit s = Inl e)" for e
    by (cases "fit s") (simp_all add: run_arima_analysis_def s [symmetric])
  have acc: "run_arima_analysis fit df = Inr (res, forecast res 30) \<and> length (forecast res 30) = 30"
    if "fit s = Inr res" for res
    using that by (simp add: run_arima_analysis_def s [symmetric] forecast_def)
  have own: "run_arima_analysis fit df \<noteq> Inl InsufficientData"
    if "\<forall>x. fit x \<noteq> Inl InsufficientData"
    using that err [of InsufficientData] by simp
  have len: "length s = length (resample_mean minute df)"
    by (simp add: s ffill_def length_ffill_from)
  show ?thesis using err acc own by (simp add: len length_resample_mean)
qed

text \<open>Three points that span eight one-minute buckets: the fit gets eight points.\<close>

theorem fit_outcome_propagated_witness:
  "length (ffill (resample_mean minute [(seconds 20, 100), (seconds 50, 104), (7 * minute, 101)])) = 8
   \<and> run_arima_analysis last_value_fit [(seconds 20, 100), (seconds 50, 104), (7 * minute, 101)]
       \<noteq> Inl InsufficientData
   \<and> map_sum id (length \<circ> snd)
        (run_arima_analysis last_value_fit [(seconds 20, 100), (seconds 50, 104), (7 * minute, 101)])
       = Inr 30"
proof -
  define df :: frame where "df = [(seconds 20, 100), (seconds 50, 104), (7 * minute, 101)]"
  have rs: "ffill (resample_mean minute df)
     = [(0, Some 102), (minute, Some 102), (2 * minute, Some 102), (3 * minute, Some 102),
        (4 * minute, Some 102), (5 * minute, Some 102), (6 * minute, Some 102),
        (7 * minute, Some 101)]"
    by (simp add: df_def resample_mean_def bin_edges_def floor_to_def minute_def seconds_def
          mean_def bucket_def ffill_def upt_conv_Cons Let_def)
  have fit: "last_value_fit (ffill (resample_mean minute df)) = Inr (\<lambda>k. 101)"
    unfolding rs by (simp add: last_value_fit_def)
  have l: "length (ffill (resample_mean minute df)) = 8" unfolding rs by simp
  note th = fit_outcome_propagated [OF refl, of last_value_fit df]
  from th fit have run: "run_arima_analysis last_value_fit df = Inr (\<lambda>k. 101, forecast (\<lambda>k. 101) 30)"
    and n: "length (forecast (\<lambda>k. 101 :: real) 30) = 30"
    by blast+
  show ?thesis using l run n unfolding df_def [symmetric] by simp
qed

text \<open>
  Claim C6 does not hold as stated: two points ten minutes apart are fewer than 6, but
  resampling and forward-filling turns them into 11 points, which the fit accepts, and a
  forecast of 30 values comes back.
\<close>

theorem two_points_ten_minutes_counterexample:
  "length [(0 :: int, 100 :: real), (10 * minute, 102)] < 6
   \<and> run_arima_analysis last_value_fit [(0, 100), (10 * minute, 102)] \<noteq> Inl InsufficientData
   \<and> map_sum id snd (run_arima_analysis last_value_fit [(0, 100), (10 * minute, 102)])
       = Inr (replicate 30 102)"
proof -
  have rs: "ffill (resample_mean minute [(0, 100), (10 * minute, 102)])
     = [(0, Some 100), (minute, Some 100), (2 * minute, Some 100), (3 * minute, Some 100),
        (4 * minute, Some 100), (5 * minute, Some 100), (6 * minute, Some 100),
        (7 * minute, Some 100), (8 * minute, Some 100), (9 * minute, Some 100),
        (10 * minute, Some 102)]"
    by (simp add: resample_mean_def bin_edges_def floor_to_def minute_def mean_def
          bucket_def ffill_def upt_conv_Cons Let_def)
  have fcst: "forecast (\<lambda>k. 102) 30 = replicate 30 102"
    by (simp add: forecast_def map_replicate_const)
  show ?thesis by (simp add: run_arima_analysis_def rs last_value_fit_def fcst)
qed

section \<open>Fetching\<close>

text \<open>
  Claim C4, as amended. When the decoded body of the response is a dict without the key
  \<open>prices\<close>, \<open>fetch_and_process_data\<close> logs two error records, the second being the raw
  text of the response, and returns \<open>None\<close>. Nothing else happens: no frame is built, no
  file is written and nothing is plotted. The raw response is in the log, not in the value
  returned.
\<close>

theorem missing_prices_returns_none:
  assumes body: "decoded resp = Inr (JObj items)"
    and lacks: "''prices'' \<notin> set (map fst items)"
  shows "fetch_and_process_data frame_of (Inr resp) days filename title
         = ([LogError (''Unexpected response for '' @ str_int days @ '' days.''),
             LogError (text_of resp)],
            Inr None)"
  using body lacks by (simp add: fetch_and_process_data_def)

text \<open>A rate-limit answer of the provider.\<close>

theorem missing_prices_returns_none_witness:
  \<open>fetch_and_process_data frame_of_rows
     (Inr \<lparr>text_of = ''{"status":{"error_code":429}}'',
           decoded = Inr (JObj [(''status'', JObj [(''error_code'', JInt 429)])])\<rparr>)
     30 ''btc_30d.csv'' ''30 Days''
   = ([LogError ''Unexpected response for 30 days.'',
       LogError ''{"status":{"error_code":429}}''],
      Inr None)\<close>
proof -
  have s: "str_int 30 = ''30''" by (simp add: str_int_def)
  have d: "decoded \<lparr>text_of = t, decoded = Inr (JObj [(''status'', JObj [(''error_code'', JInt 429)])])\<rparr>
           = Inr (JObj [(''status'', JObj [(''error_code'', JInt 429)])])" for t
    by simp
  have l: "''prices'' \<notin> set (map fst [(''status'', JObj [(''error_code'', JInt 429)])])" by simp
  show ?thesis
    using missing_prices_returns_none
      [OF d l, where frame_of = frame_of_rows and days = 30 and filename = "''btc_30d.csv''"
         and title = "''30 Days''"]
    by (simp add: s)
qed

text \<open>
  Claim C4 says that the value returned carries the raw response. It does not: two
  responses without the key and with different raw texts are answered with the same
  value, \<open>None\<close>.
\<close>

theorem none_carries_no_response_counterexample:
  \<open>snd (fetch_and_process_data frame_of_rows
          (Inr \<lparr>text_of = ''{"status":{"error_code":429}}'',
                decoded = Inr (JObj [(''status'', JObj [(''error_code'', JInt 429)])])\<rparr>)
          1 ''btc_1d.csv'' ''1 Day'')
     = Inr None
   \<and> snd (fetch_and_process_data frame_of_rows
          (Inr \<lparr>text_of = ''{"error":"coin not found"}'',
                decoded = Inr (JObj [(''error'', JStr ''coin not found'')])\<rparr>)
          1 ''btc_1d.csv'' ''1 Day'')
     = Inr None
   \<and> ''{"status":{"error_code":429}}'' \<noteq> ''{"error":"coin not found"}''\<close>
  by (simp add: fetch_and_process_data_def)

text \<open>
  Claim C5. For every integer \<open>days\<close> and every response that holds a price list the
  frame can be built from, \<open>fetch_and_process_data\<close> returns the frame resampled with
  one-minute buckets when \<open>days\<close> is 1, with one-hour buckets when \<open>days\<close> is 30, and
  with one-day buckets when \<open>days\<close> is more than 30 (as for every other value of
  \<open>days\<close>), empty buckets dropped.
\<close>

theorem bucket_frequency_by_days:
  assumes body: "decoded resp = Inr data"
    and has: "contains data ''prices'' = Inr True"
    and prices: "getitem data ''prices'' = Inr prices"
    and frame: "frame_of prices = Inr df0"
    and result: "result = snd (fetch_and_process_data frame_of (Inr resp) days filename title)"
  shows "(days = 1 \<longrightarrow> result = Inr (Some (dropna (resample_mean minute df0))))
         \<and> (days = 30 \<longrightarrow> result = Inr (Some (dropna (resample_mean hour df0))))
         \<and> (30 < days \<longrightarrow> result = Inr (Some (dropna (resample_mean day df0))))
         \<and> (days \<noteq> 1 \<and> days \<noteq> 30 \<longrightarrow> result = Inr (Some (dropna (resample_mean day df0))))"
  using body has prices frame by (simp add: result fetch_and_process_data_def Let_def)

text \<open>Three prices half an hour apart, asked for with a lookback of 30 days.\<close>

theorem bucket_frequency_by_days_witness:
  \<open>snd (fetch_and_process_data frame_of_rows
          (Inr \<lparr>text_of = ''{"prices": [ [0,100], [1800000,102], [3600000,104] ]}'',
                decoded = Inr (JObj [(''prices'',
                  JArr [JArr [JInt 0, JInt 100], JArr [JInt 1800000, JInt 102],
                        JArr [JInt 3600000, JInt 104] ])])\<rparr>)
          30 ''btc_30d.csv'' ''30 Days'')
   = Inr (Some [(0, 101), (hour, 104)])\<close>
proof -
  define prices where "prices = JArr [JArr [JInt 0, JInt 100], JArr [JInt 1800000, JInt 102],
                        JArr [JInt 3600000, JInt 104] ]"
  define resp where \<open>resp = \<lparr>text_of = ''{"prices": [ [0,100], [1800000,102], [3600000,104] ]}'',
                decoded = Inr (JObj [(''prices'', prices)])\<rparr>\<close>
  have body: "decoded resp = Inr (JObj [(''prices'', prices)])" by (simp add: resp_def)
  have has: "contains (JObj [(''prices'', prices)]) ''prices'' = Inr True" by simp
  have get: "getitem (JObj [(''prices'', prices)]) ''prices'' = Inr prices" by simp
  have frame: "frame_of_rows prices = Inr [(0, 100), (1800000000000, 102), (3600000000000, 104)]"
    by (simp add: prices_def)
  have rs: "dropna (resample_mean hour [(0, 100), (1800000000000, 102), (3600000000000, 104)])
            = [(0, 101), (hour, 104)]"
    by (simp add: resample_mean_def bin_edges_def floor_to_def hour_def minute_def mean_def
          bucket_def upt_conv_Cons)
  show ?thesis
    using bucket_frequency_by_days
      [where frame_of = frame_of_rows and days = 30 and filename = "''btc_30d.csv''"
         and title = "''30 Days''", OF body has get frame refl]
    unfolding rs resp_def prices_def by simp
qed

text \<open>
  Claim C10. When the decoded body of the response is a dict without the key \<open>prices\<close>,
  \<open>fetch_historical_data\<close> logs the raw text of the response and raises the
  \<open>KeyError\<close> again, so that its caller gets the exception and no frame, whereas
  \<open>fetch_and_process_data\<close> returns \<open>None\<close> on the same response.
\<close>

theorem missing_prices_two_paths:
  assumes body: "decoded resp = Inr (JObj items)"
    and lacks: "''prices'' \<notin> set (map fst items)"
  shows "fetch_historical_data frame_of (Inr resp)
           = ([LogError ''Unexpected API response format.'', LogError (text_of resp)],
              Inl (KeyError ''prices''))
         \<and> snd (fetch_and_process_data frame_of (Inr resp) days filename title) = Inr None
         \<and> (\<forall>df. snd (fetch_historical_data frame_of (Inr resp)) \<noteq> Inr df)"
proof -
  have "map_of items ''prices'' = None" using lacks by (simp add: map_of_eq_None_iff)
  then have g: "getitem (JObj items) ''prices'' = Inl (KeyError ''prices'')" by simp
  have h: "fetch_historical_data frame_of (Inr resp)
           = ([LogError ''Unexpected API response format.'', LogError (text_of resp)],
              Inl (KeyError ''prices''))"
    by (simp add: fetch_historical_data_def body g del: getitem.simps)
  have p: "snd (fetch_and_process_data frame_of (Inr resp) days filename title) = Inr None"
    using body lacks by (simp add: fetch_and_process_data_def)
  show ?thesis using h p by simp
qed

text \<open>An error answer of the provider, seen by both functions.\<close>

theorem missing_prices_two_paths_witness:
  \<open>fetch_historical_data frame_of_rows
     (Inr \<lparr>text_of = ''{"error":"coin not found"}'',
           decoded = Inr (JObj [(''error'', JStr ''coin not found'')])\<rparr>)
   = ([LogError ''Unexpected API response format.'', LogError ''{"error":"coin not found"}''],
      Inl (KeyError ''prices''))
   \<and> snd (fetch_and_process_data frame_of_rows
          (Inr \<lparr>text_of = ''{"error":"coin not found"}'',
                decoded = Inr (JObj [(''error'', JStr ''coin not found'')])\<rparr>)
          1 ''btc_1d.csv'' ''1 Day'')
     = Inr None\<close>
proof -
  have d: "decoded \<lparr>text_of = t, decoded = Inr (JObj [(''error'', JStr ''coin not found'')])\<rparr>
           = Inr (JObj [(''error'', JStr ''coin not found'')])" for t
    by simp
  have l: "''prices'' \<notin> set (map fst [(''error'', JStr ''coin not found'')])" by simp
  show ?thesis
    using missing_prices_two_paths
      [OF d l, where frame_of = frame_of_rows and days = 1 and filename = "''btc_1d.csv''"
         and title = "''1 Day''"]
    by simp
qed

section \<open>Resampling at the edges\<close>

text \<open>
  Claim C8, as amended. Resampling an empty frame gives an empty frame, with or without
  \<open>dropna()\<close>, and no error. Resampling a non-empty frame whose rows all fall into the
  same bucket gives a single row: the start of that bucket with the mean of all prices.
\<close>

theorem resample_edge_cases:
  "resample_mean f [] = [] \<and> dropna (resample_mean f []) = []
   \<and> (0 < f \<and> df \<noteq> [] \<and> (\<forall>r \<in> set df. floor_to f (fst r) = b)
        \<longrightarrow> dropna (resample_mean f df) = [(b, sum_list (map snd df) / real (length df))])"
proof -
  have e: "resample_mean f [] = []" by (simp add: resample_mean_def)
  have one: "dropna (resample_mean f df) = [(b, sum_list (map snd df) / real (length df))]"
    if f: "0 < f" and ne: "df \<noteq> []" and same: "\<forall>r \<in> set df. floor_to f (fst r) = b"
  proof -
    have fin: "finite (set (map fst df))" and nes: "set (map fst df) \<noteq> {}" using ne by simp_all
    have "Min (set (map fst df)) \<in> set (map fst df)" by (rule Min_in [OF fin nes])
    then have lo: "floor_to f (Min (set (map fst df))) = b" using same by auto
    have "Max (set (map fst df)) \<in> set (map fst df)" by (rule Max_in [OF fin nes])
    then have hi: "floor_to f (Max (set (map fst df))) = b" using same by auto
    have edges: "bin_edges f (map fst df) = [b]"
      unfolding bin_edges_def lo hi by (simp add: Let_def)
    have "filter (\<lambda>r. floor_to f (fst r) = b) df = df" using same by (simp add: filter_id_conv)
    then have bk: "bucket f df b = map snd df" by (simp add: bucket_def)
    show ?thesis using ne by (simp add: resample_mean_def edges bk mean_def)
  qed
  show ?thesis using e one by simp
qed

text \<open>Three observations inside the first minute.\<close>

theorem resample_edge_cases_witness:
  "dropna (resample_mean minute [(seconds 5, 100), (seconds 15, 102), (seconds 40, 104)])
   = [(0, 102)]"
proof -
  have "(0::int) < minute \<and> [(seconds 5, 100 :: real), (seconds 15, 102), (seconds 40, 104)] \<noteq> []
        \<and> (\<forall>r \<in> set [(seconds 5, 100 :: real), (seconds 15, 102), (seconds 40, 104)]. floor_to minute (fst r) = 0)"
    by (simp add: minute_def seconds_def floor_to_def)
  then show ?thesis
    using resample_edge_cases [of minute "[(seconds 5, 100), (seconds 15, 102), (seconds 40, 104)]" 0]
    by simp
qed

text \<open>
  Claim C8 does not hold for observations that merely lie within one bucket width of each
  other: two observations ten seconds apart on either side of a minute boundary give two
  rows.
\<close>

theorem short_span_two_buckets_counterexample:
  "Max (set (map fst [(seconds 55, 100 :: real), (seconds 65, 102)]))
     - Min (set (map fst [(seconds 55, 100 :: real), (seconds 65, 102)])) < minute
   \<and> dropna (resample_mean minute [(seconds 55, 100), (seconds 65, 102)]) = [(0, 100), (minute, 102)]
   \<and> length (dropna (resample_mean minute [(seconds 55, 100), (seconds 65, 102)])) \<noteq> 1"
  by (simp add: resample_mean_def bin_edges_def floor_to_def minute_def seconds_def mean_def
        bucket_def upt_conv_Cons)

end
